theory Spec2Isabelle
  imports Main "HOL-Library.Word"
begin

section \<open>The backend of server.js as state-passing functions\<close>

text \<open>
  server.js is an Express application: six route handlers over one table
  (\<open>users\<close>), a per-client session object and four external libraries
  (pg, bcrypt, razorpay, crypto) plus nodemailer. Each handler is modelled as a
  function from the request body, the store and the client's session to an
  outcome: the response, the store and session afterwards, and the list of
  external effects the handler performed, in program order. What an external
  library answers is not code of server.js; it is a field of the environment
  \<open>env\<close> that the handler receives.

  Strings are lists of 8-bit characters, read as ASCII text. Static files, paths
  other than the six routes, and requests that a body parser refuses before any
  handler runs (malformed JSON) are not modelled.

  A handler that throws, or whose promise rejects, before it answers has the
  response \<open>Rejected\<close>: Express 5 then answers 500 from its error handler,
  Express 4 leaves the request unanswered. The source pins no version of Express.
\<close>

subsection \<open>JavaScript values in request bodies\<close>

text \<open>
  \<open>express.json()\<close> and \<open>express.urlencoded()\<close> leave in \<open>req.body\<close> an
  object whose fields are JSON values; a field that the client did not send reads
  as \<open>undefined\<close>. The primitive values are modelled; nested arrays and objects
  are not. A number is an integer from \<open>-2^53\<close> to \<open>2^53 - 1\<close>, the signed value
  of a 54-bit word: a double holds each of them exactly and JavaScript prints each
  in plain decimal.

  When no parser has read a body (a request without one, under Express 5),
  \<open>req.body\<close> itself is \<open>undefined\<close>: a request carries a \<open>body option\<close>, and
  destructuring \<open>None\<close> throws.
\<close>

datatype jsval = JUndefined | JNull | JBool bool | JNum "54 word" | JStr string

type_synonym body = "string \<Rightarrow> jsval"

fun digit_char :: "nat \<Rightarrow> char" where
  "digit_char n = (''0123456789'' ! (n mod 10))"

fun show_nat :: "nat \<Rightarrow> string" where
  "show_nat n = (if n < 10 then [digit_char n] else show_nat (n div 10) @ [digit_char n])"

definition show_int :: "int \<Rightarrow> string" where
  "show_int i = (if i < 0 then CHR ''-'' # show_nat (nat (- i)) else show_nat (nat i))"

text \<open>ToString, as string concatenation and template literals apply it.\<close>

fun to_string :: "jsval \<Rightarrow> string" where
  "to_string JUndefined = ''undefined''"
| "to_string JNull = ''null''"
| "to_string (JBool b) = (if b then ''true'' else ''false'')"
| "to_string (JNum n) = show_int (sint n)"
| "to_string (JStr s) = s"

text \<open>ToBoolean: \<open>!v\<close> holds exactly for the falsy values.\<close>

fun falsy :: "jsval \<Rightarrow> bool" where
  "falsy JUndefined = True"
| "falsy JNull = True"
| "falsy (JBool b) = (\<not> b)"
| "falsy (JNum n) = (n = 0)"
| "falsy (JStr s) = (s = [])"


subsection \<open>The users table\<close>

text \<open>
  The table of lines 46 to 53: \<open>id SERIAL PRIMARY KEY\<close>, three
  \<open>VARCHAR(255) NOT NULL\<close> columns of which \<open>email\<close> is \<open>UNIQUE\<close>,
  \<open>has_paid BOOLEAN DEFAULT false\<close> and \<open>created_at\<close>. The store is the
  list of rows in insertion order and the next value of the id sequence. The
  sequence starts at 1; the model advances it on a successful INSERT only (the
  real sequence may also skip values, which nothing below depends on).
\<close>

record user_row =
  row_id :: int
  name :: string
  email :: string
  password :: string
  has_paid :: bool
  created_at :: nat

record db =
  rows :: "user_row list"
  serial :: int

text \<open>The four statements that server.js sends, with their parameters as pg
  transmits them (\<open>None\<close> is SQL NULL).\<close>

datatype sql =
    CreateTableUsers
  | InsertUser "string option" "string option" string
  | SelectUserByEmail "string option"
  | SetHasPaidTrue int

datatype db_error = ConnectionError | NotNullViolation | ValueTooLong | UniqueViolation

text \<open>pg sends \<open>undefined\<close> and \<open>null\<close> as NULL and every other primitive as
  its text.\<close>

fun pg_param :: "jsval \<Rightarrow> string option" where
  "pg_param JUndefined = None"
| "pg_param JNull = None"
| "pg_param v = Some (to_string v)"

definition insert_user :: "nat \<Rightarrow> string option \<Rightarrow> string option \<Rightarrow> string \<Rightarrow> db \<Rightarrow> db_error + db" where
  "insert_user now n e p d =
     (case (n, e) of
        (Some n', Some e') \<Rightarrow>
          if 255 < length n' \<or> 255 < length e' \<or> 255 < length p then Inl ValueTooLong
          else if e' \<in> email ` set (rows d) then Inl UniqueViolation
          else Inr (d\<lparr>rows := rows d @
                 [\<lparr>row_id = serial d, name = n', email = e', password = p,
                   has_paid = False, created_at = now\<rparr>],
                 serial := serial d + 1\<rparr>)
      | _ \<Rightarrow> Inl NotNullViolation)"

text \<open>\<open>db.query\<close>: the rows the statement returns and the store afterwards, or
  the error the promise rejects with. \<open>up\<close> says whether the store answers at all.\<close>

fun db_query :: "bool \<Rightarrow> nat \<Rightarrow> sql \<Rightarrow> db \<Rightarrow> db_error + (user_row list \<times> db)" where
  "db_query False now q d = Inl ConnectionError"
| "db_query True now CreateTableUsers d = Inr ([], d)"
| "db_query True now (InsertUser n e p) d =
     (case insert_user now n e p d of Inl err \<Rightarrow> Inl err | Inr d' \<Rightarrow> Inr ([], d'))"
| "db_query True now (SelectUserByEmail e) d =
     Inr (filter (\<lambda>u. Some (email u) = e) (rows d), d)"
| "db_query True now (SetHasPaidTrue i) d =
     Inr ([], d\<lparr>rows := map (\<lambda>u. if row_id u = i then u\<lparr>has_paid := True\<rparr> else u) (rows d)\<rparr>)"

subsection \<open>Sessions, the environment, responses\<close>

text \<open>
  \<open>req.session\<close> of express-session: with \<open>saveUninitialized: true\<close> every
  client has a session object, whose two fields are \<open>undefined\<close> (\<open>None\<close>) until
  a login sets them.
\<close>

record session =
  userId :: "int option"
  hasPaid :: "bool option"

definition empty_session :: session where
  "empty_session = \<lparr>userId = None, hasPaid = None\<rparr>"

text \<open>\<open>!req.session.userId\<close> and \<open>!req.session.hasPaid\<close>: \<open>undefined\<close>, the
  number 0 and \<open>false\<close> are falsy.\<close>

fun no_user :: "int option \<Rightarrow> bool" where
  "no_user None = True"
| "no_user (Some i) = (i = 0)"

fun not_paid :: "bool option \<Rightarrow> bool" where
  "not_paid None = True"
| "not_paid (Some p) = (\<not> p)"

record order_request =
  amount :: nat
  currency :: string
  receipt :: string

record mail =
  mail_from :: jsval
  mail_to :: "string option"
  subject :: string
  mail_text :: string

text \<open>
  What the outside answers during one request: the process environment, the clock,
  whether the store answers, and the library calls. \<open>None\<close> from a library call
  is a rejected promise. \<open>hash_string\<close> and \<open>compare_string\<close> are what bcrypt
  computes on a password that is a string. \<open>hmac alg key data\<close> is the MAC that
  \<open>crypto.createHmac(alg, key).update(data)\<close> holds, as bytes; \<open>'o\<close> is the
  type of the gateway's order objects.
\<close>

record 'o env =
  process_env :: "string \<Rightarrow> string option"
  now :: nat
  db_up :: bool
  hash_string :: "string \<Rightarrow> nat \<Rightarrow> string option"
  compare_string :: "string \<Rightarrow> string \<Rightarrow> bool option"
  hmac :: "string \<Rightarrow> string \<Rightarrow> string \<Rightarrow> 8 word list"
  orders_create :: "order_request \<Rightarrow> 'o option"
  send_mail :: "mail \<Rightarrow> bool"

text \<open>
  \<open>bcrypt.hash(data, rounds)\<close> and \<open>bcrypt.compare(data, hash)\<close> check their
  arguments first: the promise rejects when \<open>data\<close> is \<open>undefined\<close>, \<open>null\<close> or
  anything else that is not a string.
\<close>

fun bcrypt_hash :: "'o env \<Rightarrow> jsval \<Rightarrow> nat \<Rightarrow> string option" where
  "bcrypt_hash e (JStr p) rounds = hash_string e p rounds"
| "bcrypt_hash e v rounds = None"

fun bcrypt_compare :: "'o env \<Rightarrow> jsval \<Rightarrow> string \<Rightarrow> bool option" where
  "bcrypt_compare e (JStr p) h = compare_string e p h"
| "bcrypt_compare e v h = None"

text \<open>The external effects of a handler, recorded in program order.\<close>

datatype effect =
    BcryptHash jsval nat
  | BcryptCompare jsval string
  | DbQuery sql
  | OrdersCreate order_request
  | HmacDigest string string string string
  | SetSessionUserId int
  | SetSessionHasPaid bool
  | SendMail mail
  | ConsoleError

datatype 'o content = Text string | JsonOkTrue | JsonOrder 'o

text \<open>\<open>Respond status body\<close> is \<open>res.status(status).send(body)\<close> or
  \<open>res.json(body)\<close> (status 200 when the handler sets none); \<open>Rejected\<close> is
  a handler that throws or whose promise rejects before it answers.\<close>

datatype 'o response =
    Respond nat "'o content"
  | Redirect string
  | SendFile string
  | Rejected

record 'o outcome =
  response :: "'o response"
  db_after :: db
  session_after :: session
  effects :: "effect list"

definition outcome :: "'o response \<Rightarrow> db \<Rightarrow> session \<Rightarrow> effect list \<Rightarrow> 'o outcome" where
  "outcome r d s fx = \<lparr>response = r, db_after = d, session_after = s, effects = fx\<rparr>"

subsection \<open>The hex digest\<close>

text \<open>\<open>.digest('hex')\<close> writes each byte of the MAC as two digits of
  \<open>0123456789abcdef\<close>, high half first.\<close>

definition hex_digits :: string where
  "hex_digits = ''0123456789abcdef''"

definition hex_byte :: "8 word \<Rightarrow> string" where
  "hex_byte w = [hex_digits ! (unat w div 16), hex_digits ! (unat w mod 16)]"

definition digest_hex :: "8 word list \<Rightarrow> string" where
  "digest_hex ws = concat (map hex_byte ws)"

subsection \<open>The route handlers\<close>

text \<open>POST /register, lines 62 to 73. The first statement of the handler
  destructures \<open>req.body\<close>.\<close>

definition register :: "'o env \<Rightarrow> body option \<Rightarrow> db \<Rightarrow> session \<Rightarrow> 'o outcome" where
  "register e rb d s =
     (case rb of
        None \<Rightarrow> outcome Rejected d s []
      | Some b \<Rightarrow>
     (let name_v = b ''name''; email_v = b ''email''; password_v = b ''password'' in
      if falsy name_v \<or> falsy email_v \<or> falsy password_v
      then outcome (Respond 400 (Text ''All fields required'')) d s []
      else case bcrypt_hash e password_v 10 of
        None \<Rightarrow> outcome Rejected d s [BcryptHash password_v 10]
      | Some hashed \<Rightarrow>
          (let q = InsertUser (pg_param name_v) (pg_param email_v) hashed in
           (case db_query (db_up e) (now e) q d of
              Inr (_, d') \<Rightarrow>
                outcome (Respond 200 (Text ''Registration successful. Please proceed to payment.''))
                  d' s [BcryptHash password_v 10, DbQuery q]
            | Inl err \<Rightarrow>
                outcome (Respond 500 (Text ''User exists or DB error''))
                  d s [BcryptHash password_v 10, DbQuery q, ConsoleError]))))"

text \<open>POST /login, lines 75 to 85. The handler destructures \<open>req.body\<close>
  first; neither await stands in a try block.\<close>

definition login :: "'o env \<Rightarrow> body option \<Rightarrow> db \<Rightarrow> session \<Rightarrow> 'o outcome" where
  "login e rb d s =
     (case rb of
        None \<Rightarrow> outcome Rejected d s []
      | Some b \<Rightarrow>
     (let email_v = b ''email''; password_v = b ''password'';
          q = SelectUserByEmail (pg_param email_v) in
      case db_query (db_up e) (now e) q d of
        Inl err \<Rightarrow> outcome Rejected d s [DbQuery q]
      | Inr (result_rows, _) \<Rightarrow>
          (case result_rows of
             [] \<Rightarrow> outcome (Respond 401 (Text ''Invalid'')) d s [DbQuery q]
           | user # _ \<Rightarrow>
               (case bcrypt_compare e password_v (password user) of
                  None \<Rightarrow> outcome Rejected d s [DbQuery q, BcryptCompare password_v (password user)]
                | Some ok \<Rightarrow>
                    if \<not> ok
                    then outcome (Respond 401 (Text ''Invalid'')) d s
                           [DbQuery q, BcryptCompare password_v (password user)]
                    else outcome (Respond 200 (Text ''Login successful'')) d
                           (s\<lparr>userId := Some (row_id user), hasPaid := Some (has_paid user)\<rparr>)
                           [DbQuery q, BcryptCompare password_v (password user),
                            SetSessionUserId (row_id user), SetSessionHasPaid (has_paid user)]))))"

text \<open>POST /create-order, lines 88 to 101. The handler does not read
  \<open>req.body\<close>.\<close>

definition order_params :: "nat \<Rightarrow> order_request" where
  "order_params t = \<lparr>amount = 20000, currency = ''INR'', receipt = ''rcpt_'' @ show_nat t\<rparr>"

definition create_order :: "'o env \<Rightarrow> body option \<Rightarrow> db \<Rightarrow> session \<Rightarrow> 'o outcome" where
  "create_order e rb d s =
     (case orders_create e (order_params (now e)) of
        Some order \<Rightarrow>
          outcome (Respond 200 (JsonOrder order)) d s [OrdersCreate (order_params (now e))]
      | None \<Rightarrow>
          outcome (Respond 500 (Text ''Order creation failed'')) d s
            [OrdersCreate (order_params (now e)), ConsoleError])"

text \<open>POST /payment-success, lines 103 to 124. Line 104 destructures
  \<open>req.body\<close>, before the session check of line 106. \<open>signed_data\<close> is the argument
  of \<open>update\<close>; \<open>generated_signature\<close> is the constant of that name at line 108.
  \<open>createHmac\<close> throws on a key that is \<open>undefined\<close>. Past the session
  check \<open>sessionUserId\<close> is a number, which \<open>the\<close> reads.\<close>

definition signed_data :: "body \<Rightarrow> string" where
  "signed_data b = to_string (b ''razorpay_order_id'') @ ''|'' @ to_string (b ''razorpay_payment_id'')"

definition generated_signature :: "'o env \<Rightarrow> string \<Rightarrow> body \<Rightarrow> string" where
  "generated_signature e key b = digest_hex (hmac e ''sha256'' key (signed_data b))"

definition payment_success :: "'o env \<Rightarrow> body option \<Rightarrow> db \<Rightarrow> session \<Rightarrow> 'o outcome" where
  "payment_success e rb d s =
     (case rb of
        None \<Rightarrow> outcome Rejected d s []
      | Some b \<Rightarrow>
     (let razorpay_signature = b ''razorpay_signature''; sessionUserId = userId s in
      if no_user sessionUserId then outcome (Respond 401 (Text ''Login required'')) d s []
      else case process_env e ''RAZORPAY_KEY_SECRET'' of
        None \<Rightarrow> outcome Rejected d s []
      | Some key \<Rightarrow>
          (let h = HmacDigest ''sha256'' key (signed_data b) ''hex'';
               q = SetHasPaidTrue (the sessionUserId) in
           if JStr (generated_signature e key b) \<noteq> razorpay_signature
           then outcome (Respond 400 (Text ''Invalid signature'')) d s [h]
           else (case db_query (db_up e) (now e) q d of
                   Inr (_, d') \<Rightarrow>
                     outcome (Respond 200 JsonOkTrue) d' (s\<lparr>hasPaid := Some True\<rparr>)
                       [h, DbQuery q, SetSessionHasPaid True]
                 | Inl err \<Rightarrow>
                     outcome (Respond 500 (Text ''DB error'')) d s [h, DbQuery q, ConsoleError]))))"

text \<open>POST /contact, lines 127 to 153. The handler destructures \<open>req.body\<close>
  first.\<close>

definition mail_options :: "'o env \<Rightarrow> body \<Rightarrow> mail" where
  "mail_options e b =
     \<lparr>mail_from = b ''email'',
      mail_to = process_env e ''GMAIL_USER'',
      subject = ''Contact: '' @ to_string (b ''name''),
      mail_text = ''From: '' @ to_string (b ''name'') @ '' <'' @ to_string (b ''email'') @ ''>''
                  @ [CHR 0x0A, CHR 0x0A] @ to_string (b ''message'')\<rparr>"

definition contact :: "'o env \<Rightarrow> body option \<Rightarrow> db \<Rightarrow> session \<Rightarrow> 'o outcome" where
  "contact e rb d s =
     (case rb of
        None \<Rightarrow> outcome Rejected d s []
      | Some b \<Rightarrow>
     (if falsy (b ''name'') \<or> falsy (b ''email'') \<or> falsy (b ''message'')
      then outcome (Respond 400 (Text ''All required'')) d s []
      else if send_mail e (mail_options e b)
      then outcome (Respond 200 (Text ''Message sent'')) d s [SendMail (mail_options e b)]
      else outcome (Respond 500 (Text ''Mail failed'')) d s
             [SendMail (mail_options e b), ConsoleError]))"

text \<open>GET /dashboard, lines 156 to 160. The handler does not read
  \<open>req.body\<close>. The file is named relative to the directory of server.js.\<close>

definition dashboard :: "'o env \<Rightarrow> body option \<Rightarrow> db \<Rightarrow> session \<Rightarrow> 'o outcome" where
  "dashboard e rb d s =
     (if no_user (userId s) then outcome (Redirect ''/login.html'') d s []
      else if not_paid (hasPaid s) then outcome (Redirect ''/payment.html'') d s []
      else outcome (SendFile ''../frontend/dashboard.html'') d s [])"

subsection \<open>The server: one store, one session per client\<close>

datatype route = Register | Login | CreateOrder | PaymentSuccess | Contact | Dashboard

record request =
  route :: route
  sid :: nat
  req_body :: "body option"

record server =
  store :: db
  sessions :: "nat \<Rightarrow> session"

definition initial :: server where
  "initial = \<lparr>store = \<lparr>rows = [], serial = 1\<rparr>, sessions = (\<lambda>c. empty_session)\<rparr>"

fun handler :: "route \<Rightarrow> 'o env \<Rightarrow> body option \<Rightarrow> db \<Rightarrow> session \<Rightarrow> 'o outcome" where
  "handler Register = register"
| "handler Login = login"
| "handler CreateOrder = create_order"
| "handler PaymentSuccess = payment_success"
| "handler Contact = contact"
| "handler Dashboard = dashboard"

definition serve :: "'o env \<Rightarrow> request \<Rightarrow> server \<Rightarrow> 'o outcome" where
  "serve e r sv = handler (route r) e (req_body r) (store sv) (sessions sv (sid r))"

definition step :: "'o env \<Rightarrow> request \<Rightarrow> server \<Rightarrow> server" where
  "step e r sv =
     (let out = serve e r sv in
      \<lparr>store = db_after out, sessions = (sessions sv)(sid r := session_after out)\<rparr>)"

fun run :: "('o env \<times> request) list \<Rightarrow> server \<Rightarrow> server" where
  "run [] sv = sv"
| "run ((e, r) # rs) sv = run rs (step e r sv)"

subsection \<open>Start-up\<close>









subsection \<open>Consistent server states\<close>

text \<open>
  The states that requests can produce from \<open>initial\<close> keep the id sequence
  ahead of every id in the table, starting at 1, and every session that names a
  user names the id of a row (\<open>run_consistent\<close> below).
\<close>

abbreviation consistent :: "server \<Rightarrow> bool" where
  "consistent sv \<equiv>
     1 \<le> serial (store sv)
   \<and> (\<forall>i \<in> row_id ` set (rows (store sv)). 1 \<le> i \<and> i < serial (store sv))
   \<and> (\<forall>c uid. userId (sessions sv c) = Some uid \<longrightarrow> uid \<in> row_id ` set (rows (store sv)))"

subsection \<open>A concrete environment for the examples\<close>

text \<open>
  The examples below run the handlers in an environment whose library calls are
  small stand-ins: the password hash puts a dollar sign before the password, the
  MAC is the bytes of the key followed by the bytes of the data, the gateway
  answers every order with the unit value and the store is up. The process
  environment holds the two gateway keys and nothing else.
\<close>

definition gateway_keys :: "string \<Rightarrow> string option" where
  "gateway_keys = [''RAZORPAY_KEY_ID'' \<mapsto> ''rzp_test_1'', ''RAZORPAY_KEY_SECRET'' \<mapsto> ''k'']"

definition stub_env :: "unit env" where
  "stub_env =
     \<lparr>process_env = gateway_keys, now = 7, db_up = True,
      hash_string = (\<lambda>p c. Some (''$'' @ p)),
      compare_string = (\<lambda>p h. Some (''$'' @ p = h)),
      hmac = (\<lambda>alg key data. map (\<lambda>c. of_nat (of_char c)) (key @ data)),
      orders_create = (\<lambda>r. Some ()), send_mail = (\<lambda>m. True)\<rparr>"

definition alice :: user_row where
  "alice = \<lparr>row_id = 1, name = ''Alice'', email = ''a@x.com'', password = ''$pw123'',
            has_paid = False, created_at = 7\<rparr>"

definition bob :: user_row where
  "bob = \<lparr>row_id = 2, name = ''Bob'', email = ''b@x.com'', password = ''$hunter2'',
          has_paid = False, created_at = 7\<rparr>"

definition form :: "(string \<times> string) list \<Rightarrow> body" where
  "form kvs = (\<lambda>k. case map_of kvs k of None \<Rightarrow> JUndefined | Some v \<Rightarrow> JStr v)"

definition callback :: "string \<Rightarrow> body" where
  "callback sig =
     form [(''razorpay_order_id'', ''o1''), (''razorpay_payment_id'', ''p1''),
           (''razorpay_signature'', sig)]"

text \<open>
  \<open>logged_in\<close> is the server after Alice and Bob have registered and logged in
  from clients 1 and 2 (\<open>reach_logged_in\<close> below); \<open>pay c sig\<close> is the
  callback for order \<open>o1\<close> and payment \<open>p1\<close> sent by client \<open>c\<close>, and
  \<open>pay_bare c\<close> is a request to the same route for which no body was parsed.
\<close>

definition logged_in :: server where
  "logged_in =
     \<lparr>store = \<lparr>rows = [alice, bob], serial = 3\<rparr>,
      sessions = (\<lambda>c. empty_session)
        (1 := \<lparr>userId = Some 1, hasPaid = Some False\<rparr>,
         2 := \<lparr>userId = Some 2, hasPaid = Some False\<rparr>)\<rparr>"

definition pay :: "nat \<Rightarrow> string \<Rightarrow> request" where
  "pay c sig = \<lparr>route = PaymentSuccess, sid = c, req_body = Some (callback sig)\<rparr>"

definition pay_bare :: "nat \<Rightarrow> request" where
  "pay_bare c = \<lparr>route = PaymentSuccess, sid = c, req_body = None\<rparr>"

definition post :: "route \<Rightarrow> nat \<Rightarrow> (string \<times> string) list \<Rightarrow> request" where
  "post rt c kvs = \<lparr>route = rt, sid = c, req_body = Some (form kvs)\<rparr>"

section \<open>Properties\<close>

subsection \<open>The hex digest\<close>

lemma hex_byte_chars: "set (hex_byte w) \<subseteq> set hex_digits"
proof -
  have "unat w < 256"
    using unsigned_less [of w, where ?'a = nat] by simp
  then have "unat w div 16 < 16" by simp
  moreover have "unat w mod 16 < 16" by simp
  moreover have "length hex_digits = 16" by (simp add: hex_digits_def)
  ultimately show ?thesis by (simp add: hex_byte_def)
qed

lemma digest_hex_chars: "set (digest_hex ws) \<subseteq> set hex_digits"
  using hex_byte_chars by (auto simp: digest_hex_def)

lemma digest_hex_length: "length (digest_hex ws) = 2 * length ws"
  by (induction ws) (simp_all add: digest_hex_def hex_byte_def)

subsection \<open>The example run\<close>

lemmas fixtures = gateway_keys_def stub_env_def alice_def bob_def form_def callback_def
  logged_in_def pay_def pay_bare_def post_def empty_session_def initial_def

lemmas evals = serve_def step_def payment_success_def register_def login_def outcome_def
  generated_signature_def signed_data_def digest_hex_def hex_byte_def hex_digits_def
  insert_user_def

lemma reach_logged_in:
  "run [(stub_env, post Register 0 [(''name'', ''Alice''), (''email'', ''a@x.com''), (''password'', ''pw123'')]),
        (stub_env, post Register 0 [(''name'', ''Bob''), (''email'', ''b@x.com''), (''password'', ''hunter2'')]),
        (stub_env, post Login 1 [(''email'', ''a@x.com''), (''password'', ''pw123'')]),
        (stub_env, post Login 2 [(''email'', ''b@x.com''), (''password'', ''hunter2'')])] initial
   = logged_in"
  by (simp add: fixtures evals fun_eq_iff)

subsection \<open>Reachable states\<close>

lemma insert_user_frame:
  "insert_user t n m p d = Inr d' \<Longrightarrow>
     serial d' = serial d + 1 \<and> (\<exists>u. rows d' = rows d @ [u] \<and> row_id u = serial d)"
  by (auto simp: insert_user_def split: option.splits if_splits)

lemma register_frame_parsed:
  "session_after (register e (Some b) d s) = s
   \<and> (db_after (register e (Some b) d s) = d
      \<or> serial (db_after (register e (Some b) d s)) = serial d + 1
        \<and> row_id ` set (rows (db_after (register e (Some b) d s))) = insert (serial d) (row_id ` set (rows d)))"
proof (cases "falsy (b ''name'') \<or> falsy (b ''email'') \<or> falsy (b ''password'')")
  case True
  then show ?thesis by (simp add: register_def outcome_def)
next
  case valid: False
  show ?thesis
  proof (cases "bcrypt_hash e (b ''password'') 10")
    case None
    with valid show ?thesis by (simp add: register_def outcome_def)
  next
    case (Some hashed)
    show ?thesis
    proof (cases "db_query (db_up e) (now e)
        (InsertUser (pg_param (b ''name'')) (pg_param (b ''email'')) hashed) d")
      case (Inl err)
      with valid Some show ?thesis by (simp add: register_def outcome_def)
    next
      case (Inr res)
      obtain rs d' where res: "res = (rs, d')" by (cases res)
      from Inr res have "insert_user (now e) (pg_param (b ''name'')) (pg_param (b ''email'')) hashed d
          = Inr d'"
        by (cases "db_up e") (simp_all split: sum.splits)
      then have "serial d' = serial d + 1 \<and> (\<exists>u. rows d' = rows d @ [u] \<and> row_id u = serial d)"
        by (rule insert_user_frame)
      then have "serial d' = serial d + 1
          \<and> row_id ` set (rows d') = insert (serial d) (row_id ` set (rows d))"
        by auto
      moreover have "db_after (register e (Some b) d s) = d'" "session_after (register e (Some b) d s) = s"
        using valid Some Inr res by (simp_all add: register_def outcome_def)
      ultimately show ?thesis by simp
    qed
  qed
qed

lemma login_frame_parsed:
  "db_after (login e (Some b) d s) = d
   \<and> (session_after (login e (Some b) d s) = s
      \<or> (\<exists>u \<in> set (rows d). userId (session_after (login e (Some b) d s)) = Some (row_id u)))"
proof (cases "db_up e")
  case False
  then show ?thesis by (simp add: login_def outcome_def)
next
  case True
  show ?thesis
  proof (cases "filter (\<lambda>u. Some (email u) = pg_param (b ''email'')) (rows d)")
    case Nil
    with True show ?thesis by (simp add: login_def outcome_def)
  next
    case (Cons u us)
    then have "u \<in> set (filter (\<lambda>u. Some (email u) = pg_param (b ''email'')) (rows d))"
      by simp
    then have "u \<in> set (rows d)" by simp
    with True Cons show ?thesis
      by (cases "bcrypt_compare e (b ''password'') (password u)")
         (auto simp: login_def outcome_def Let_def)
  qed
qed

lemma payment_success_frame_parsed:
  "userId (session_after (payment_success e (Some b) d s)) = userId s
   \<and> serial (db_after (payment_success e (Some b) d s)) = serial d
   \<and> row_id ` set (rows (db_after (payment_success e (Some b) d s))) = row_id ` set (rows d)"
proof -
  have ids: "map row_id (map (\<lambda>u. if row_id u = i then u\<lparr>has_paid := True\<rparr> else u) rs)
      = map row_id rs" for i rs
    by (induction rs) simp_all
  have "userId (session_after (payment_success e (Some b) d s)) = userId s
   \<and> serial (db_after (payment_success e (Some b) d s)) = serial d
   \<and> map row_id (rows (db_after (payment_success e (Some b) d s))) = map row_id (rows d)"
    by (cases "db_up e")
       (simp_all add: payment_success_def outcome_def Let_def ids split: option.splits)
  moreover have "row_id ` set xs = row_id ` set ys" if "map row_id xs = map row_id ys"
    for xs ys :: "user_row list"
    using arg_cong [OF that, of set] unfolding set_map .
  ultimately show ?thesis by blast
qed

lemma register_frame:
  "session_after (register e rb d s) = s
   \<and> (db_after (register e rb d s) = d
      \<or> serial (db_after (register e rb d s)) = serial d + 1
        \<and> row_id ` set (rows (db_after (register e rb d s))) = insert (serial d) (row_id ` set (rows d)))"
proof (cases rb)
  case None
  then show ?thesis by (simp add: register_def outcome_def)
next
  case (Some b)
  with register_frame_parsed [of e b d s] show ?thesis by simp
qed

lemma login_frame:
  "db_after (login e rb d s) = d
   \<and> (session_after (login e rb d s) = s
      \<or> (\<exists>u \<in> set (rows d). userId (session_after (login e rb d s)) = Some (row_id u)))"
proof (cases rb)
  case None
  then show ?thesis by (simp add: login_def outcome_def)
next
  case (Some b)
  with login_frame_parsed [of e b d s] show ?thesis by simp
qed

lemma payment_success_frame:
  "userId (session_after (payment_success e rb d s)) = userId s
   \<and> serial (db_after (payment_success e rb d s)) = serial d
   \<and> row_id ` set (rows (db_after (payment_success e rb d s))) = row_id ` set (rows d)"
proof (cases rb)
  case None
  then show ?thesis by (simp add: payment_success_def outcome_def)
next
  case (Some b)
  with payment_success_frame_parsed [of e b d s] show ?thesis by simp
qed

lemma quiet_frame:
  "db_after (create_order e rb d s) = d \<and> session_after (create_order e rb d s) = s"
  "db_after (contact e rb d s) = d \<and> session_after (contact e rb d s) = s"
  "db_after (dashboard e rb d s) = d \<and> session_after (dashboard e rb d s) = s"
  by (simp_all add: create_order_def contact_def dashboard_def outcome_def split: option.splits)

lemma serve_frame:
  "(serial (db_after (serve e r sv)) = serial (store sv)
      \<and> row_id ` set (rows (db_after (serve e r sv))) = row_id ` set (rows (store sv))
    \<or> serial (db_after (serve e r sv)) = serial (store sv) + 1
      \<and> row_id ` set (rows (db_after (serve e r sv)))
          = insert (serial (store sv)) (row_id ` set (rows (store sv))))
   \<and> (userId (session_after (serve e r sv)) = userId (sessions sv (sid r))
    \<or> (\<exists>u \<in> set (rows (store sv)). userId (session_after (serve e r sv)) = Some (row_id u)))"
proof (cases "route r")
  case Register
  with register_frame [of e "req_body r" "store sv" "sessions sv (sid r)"]
  show ?thesis by (auto simp: serve_def)
next
  case Login
  with login_frame [of e "req_body r" "store sv" "sessions sv (sid r)"]
  show ?thesis by (auto simp: serve_def)
next
  case CreateOrder
  then show ?thesis by (simp add: serve_def quiet_frame)
next
  case PaymentSuccess
  with payment_success_frame [of e "req_body r" "store sv" "sessions sv (sid r)"]
  show ?thesis by (simp add: serve_def)
next
  case Contact
  then show ?thesis by (simp add: serve_def quiet_frame)
next
  case Dashboard
  then show ?thesis by (simp add: serve_def quiet_frame)
qed

lemma fresh_ids:
  fixes I I' :: "int set"
  assumes "n' = n \<and> I' = I \<or> n' = n + 1 \<and> I' = insert n I"
    and "1 \<le> n" and "\<forall>i \<in> I. 1 \<le> i \<and> i < n"
  shows "n \<le> n' \<and> I \<subseteq> I' \<and> (\<forall>i \<in> I'. 1 \<le> i \<and> i < n')"
  using assms by auto

lemma step_consistent:
  assumes "consistent sv"
  shows "consistent (step e r sv)"
proof -
  let ?out = "serve e r sv"
  let ?ids = "row_id ` set (rows (store sv))"
  let ?ids' = "row_id ` set (rows (db_after ?out))"
  have st: "store (step e r sv) = db_after ?out"
    and se: "sessions (step e r sv) = (sessions sv)(sid r := session_after ?out)"
    by (simp_all add: step_def Let_def)
  have fr: "serial (db_after ?out) = serial (store sv) \<and> ?ids' = ?ids
      \<or> serial (db_after ?out) = serial (store sv) + 1 \<and> ?ids' = insert (serial (store sv)) ?ids"
    using serve_frame [of e r sv] by blast
  have a1: "1 \<le> serial (store sv)"
    and a2: "\<forall>i \<in> ?ids. 1 \<le> i \<and> i < serial (store sv)"
    using assms by blast+
  have ser: "serial (store sv) \<le> serial (db_after ?out)"
    and ids: "?ids \<subseteq> ?ids'"
    and fresh: "\<forall>i \<in> ?ids'. 1 \<le> i \<and> i < serial (db_after ?out)"
    using fresh_ids [OF fr a1 a2] by blast+
  have new: "uid \<in> ?ids'" if "userId (session_after ?out) = Some uid" for uid
  proof -
    from serve_frame [of e r sv] consider
      "userId (session_after ?out) = userId (sessions sv (sid r))"
      | u where "u \<in> set (rows (store sv))" "userId (session_after ?out) = Some (row_id u)"
      by blast
    then have "uid \<in> ?ids"
    proof cases
      case 1
      with that assms show ?thesis by simp
    next
      case 2
      with that show ?thesis by auto
    qed
    with ids show ?thesis by blast
  qed
  have "1 \<le> serial (store (step e r sv))"
    using assms ser st by simp
  moreover have "\<forall>i \<in> row_id ` set (rows (store (step e r sv))).
      1 \<le> i \<and> i < serial (store (step e r sv))"
    using fresh unfolding st .
  moreover have "uid \<in> row_id ` set (rows (store (step e r sv)))"
    if "userId (sessions (step e r sv) c) = Some uid" for c uid
  proof (cases "c = sid r")
    case True
    with that se have "userId (session_after ?out) = Some uid" by simp
    then show ?thesis unfolding st by (rule new)
  next
    case False
    with that se have "userId (sessions sv c) = Some uid" by simp
    with assms have "uid \<in> ?ids" by blast
    with ids show ?thesis unfolding st by blast
  qed
  ultimately show ?thesis by blast
qed

lemma run_consistent: "consistent sv \<Longrightarrow> consistent (run ers sv)"
proof (induction ers arbitrary: sv)
  case Nil
  then show ?case by simp
next
  case (Cons er ers)
  obtain e r where er: "er = (e, r)" by (cases er)
  from Cons.prems have "consistent (step e r sv)" by (rule step_consistent)
  then have "consistent (run ers (step e r sv))" by (rule Cons.IH)
  then show ?case unfolding er by simp
qed

lemma reachable_session_user:
  assumes "userId (sessions (run ers initial) c) = Some uid"
  shows "uid \<noteq> 0 \<and> (\<exists>u \<in> set (rows (store (run ers initial))). row_id u = uid)"
proof -
  have "consistent initial"
    by (simp add: initial_def empty_session_def)
  then have inv: "consistent (run ers initial)"
    by (rule run_consistent)
  with assms have m: "uid \<in> row_id ` set (rows (store (run ers initial)))"
    by blast
  with inv have "1 \<le> uid" by blast
  with m show ?thesis by auto
qed

subsection \<open>The payment callback\<close>

text \<open>
  Claim C1. For a request to /payment-success that has a parsed body and whose
  session carries a user, the
  expected signature is the hex digest of the SHA-256 HMAC, keyed by
  \<open>RAZORPAY_KEY_SECRET\<close>, of the order id, a bar and the payment id in this
  order; it consists of the digits \<open>0123456789abcdef\<close> only, two for each byte
  of the MAC; computing it is the first effect of the handler; and the handler answers 400 "Invalid signature"
  exactly when the supplied signature is not the string equal to it.
\<close>

theorem payment_success_expected_signature:
  assumes "\<not> no_user (userId s)"
    and "process_env e ''RAZORPAY_KEY_SECRET'' = Some key"
  shows "generated_signature e key b =
           digest_hex (hmac e ''sha256'' key
             (to_string (b ''razorpay_order_id'') @ ''|'' @ to_string (b ''razorpay_payment_id'')))
       \<and> set (generated_signature e key b) \<subseteq> set ''0123456789abcdef''
       \<and> length (generated_signature e key b) =
           2 * length (hmac e ''sha256'' key
             (to_string (b ''razorpay_order_id'') @ ''|'' @ to_string (b ''razorpay_payment_id'')))
       \<and> (\<exists>later. effects (payment_success e (Some b) d s) =
           HmacDigest ''sha256'' key
             (to_string (b ''razorpay_order_id'') @ ''|'' @ to_string (b ''razorpay_payment_id''))
             ''hex'' # later)
       \<and> (response (payment_success e (Some b) d s) = Respond 400 (Text ''Invalid signature'')
            \<longleftrightarrow> b ''razorpay_signature'' \<noteq> JStr (generated_signature e key b))"
proof -
  have chars: "set (generated_signature e key b) \<subseteq> set ''0123456789abcdef''"
    using digest_hex_chars [of "hmac e ''sha256'' key (signed_data b)"]
    by (simp add: generated_signature_def hex_digits_def)
  have verdict: "response (payment_success e (Some b) d s) = Respond 400 (Text ''Invalid signature'')
            \<longleftrightarrow> b ''razorpay_signature'' \<noteq> JStr (generated_signature e key b)"
    using assms
    by (auto simp: payment_success_def outcome_def Let_def split: sum.splits)
  have first: "\<exists>later. effects (payment_success e (Some b) d s) =
           HmacDigest ''sha256'' key (signed_data b) ''hex'' # later"
    using assms
    by (auto simp: payment_success_def outcome_def Let_def split: sum.splits)
  have len: "length (generated_signature e key b) =
      2 * length (hmac e ''sha256'' key (signed_data b))"
    by (simp add: generated_signature_def digest_hex_length)
  show ?thesis
    using chars verdict first len by (simp add: generated_signature_def signed_data_def)
qed

theorem payment_success_expected_signature_witness:
  "\<not> no_user (userId \<lparr>userId = Some 1, hasPaid = Some False\<rparr>)
   \<and> process_env stub_env ''RAZORPAY_KEY_SECRET'' = Some ''k''
   \<and> generated_signature stub_env ''k'' (callback ''00'') = ''6b6f317c7031''
   \<and> response (payment_success stub_env (Some (callback ''00'')) \<lparr>rows = [alice], serial = 2\<rparr>
        \<lparr>userId = Some 1, hasPaid = Some False\<rparr>) = Respond 400 (Text ''Invalid signature'')
   \<and> response (payment_success stub_env (Some (callback ''6b6f317c7031'')) \<lparr>rows = [alice], serial = 2\<rparr>
        \<lparr>userId = Some 1, hasPaid = Some False\<rparr>) = Respond 200 JsonOkTrue"
  using payment_success_expected_signature
    [of "\<lparr>userId = Some 1, hasPaid = Some False\<rparr>" stub_env "''k''" "callback ''00''"
        "\<lparr>rows = [alice], serial = 2\<rparr>"]
  by (simp add: gateway_keys_def stub_env_def callback_def form_def alice_def
      payment_success_def outcome_def generated_signature_def signed_data_def digest_hex_def
      hex_byte_def hex_digits_def)

lemma serve_payment_success:
  "route r = PaymentSuccess \<Longrightarrow>
     serve e r sv = payment_success e (req_body r) (store sv) (sessions sv (sid r))"
  by (simp add: serve_def)

lemma step_unchanged:
  "db_after (serve e r sv) = store sv \<Longrightarrow> session_after (serve e r sv) = sessions sv (sid r)
   \<Longrightarrow> step e r sv = sv"
  by (simp add: step_def Let_def)

lemma payment_success_anonymous:
  "no_user (userId s) \<Longrightarrow>
     payment_success e (Some b) d s = outcome (Respond 401 (Text ''Login required'')) d s []"
  by (simp add: payment_success_def)

lemma payment_success_mismatch:
  "\<not> no_user (userId s) \<Longrightarrow> process_env e ''RAZORPAY_KEY_SECRET'' = Some key \<Longrightarrow>
   b ''razorpay_signature'' \<noteq> JStr (generated_signature e key b) \<Longrightarrow>
     payment_success e (Some b) d s =
       outcome (Respond 400 (Text ''Invalid signature'')) d s
         [HmacDigest ''sha256'' key (signed_data b) ''hex'']"
  by (auto simp: payment_success_def Let_def)

lemma payment_success_verified:
  "userId s = Some uid \<Longrightarrow> uid \<noteq> 0 \<Longrightarrow> process_env e ''RAZORPAY_KEY_SECRET'' = Some key \<Longrightarrow>
   b ''razorpay_signature'' = JStr (generated_signature e key b) \<Longrightarrow>
     payment_success e (Some b) d s =
       (if db_up e
        then outcome (Respond 200 JsonOkTrue)
               (d\<lparr>rows := map (\<lambda>u. if row_id u = uid then u\<lparr>has_paid := True\<rparr> else u) (rows d)\<rparr>)
               (s\<lparr>hasPaid := Some True\<rparr>)
               [HmacDigest ''sha256'' key (signed_data b) ''hex'', DbQuery (SetHasPaidTrue uid),
                SetSessionHasPaid True]
        else outcome (Respond 500 (Text ''DB error'')) d s
               [HmacDigest ''sha256'' key (signed_data b) ''hex'', DbQuery (SetHasPaidTrue uid),
                ConsoleError])"
  by (cases "db_up e") (simp_all add: payment_success_def Let_def)

lemma marked_paid:
  assumes "u \<in> set (map (\<lambda>u. if row_id u = uid then u\<lparr>has_paid := True\<rparr> else u) rs)"
    and "row_id u = uid"
  shows "has_paid u"
proof -
  from assms(1) obtain v
    where v: "u = (if row_id v = uid then v\<lparr>has_paid := True\<rparr> else v)"
    unfolding set_map by (rule imageE)
  show ?thesis
  proof (cases "row_id v = uid")
    case True
    with v show ?thesis by simp
  next
    case False
    with v assms(2) show ?thesis by simp
  qed
qed

text \<open>
  Claim C2. A request to /payment-success with a parsed body, whose session
  carries a user and whose supplied signature is not the recomputed one, is answered 400 "Invalid
  signature"; the only effect is the HMAC computation, and the whole server state
  (every row of the store, every session) is as before: every user's
  \<open>has_paid\<close> and the session's cached \<open>hasPaid\<close> are unchanged.
\<close>

theorem payment_success_invalid_signature:
  assumes "route r = PaymentSuccess"
    and "req_body r = Some b"
    and "\<not> no_user (userId (sessions sv (sid r)))"
    and "process_env e ''RAZORPAY_KEY_SECRET'' = Some key"
    and "b ''razorpay_signature'' \<noteq> JStr (generated_signature e key b)"
  shows "response (serve e r sv) = Respond 400 (Text ''Invalid signature'')
       \<and> effects (serve e r sv) = [HmacDigest ''sha256'' key (signed_data b) ''hex'']
       \<and> step e r sv = sv
       \<and> map has_paid (rows (store (step e r sv))) = map has_paid (rows (store sv))
       \<and> hasPaid (sessions (step e r sv) (sid r)) = hasPaid (sessions sv (sid r))"
proof -
  have out: "serve e r sv =
      outcome (Respond 400 (Text ''Invalid signature'')) (store sv) (sessions sv (sid r))
        [HmacDigest ''sha256'' key (signed_data b) ''hex'']"
    using assms by (simp add: serve_payment_success payment_success_mismatch)
  then have "step e r sv = sv"
    by (intro step_unchanged) (simp_all add: outcome_def)
  with out show ?thesis by (simp add: outcome_def)
qed

theorem payment_success_invalid_signature_witness:
  "route (pay 1 ''00'') = PaymentSuccess
   \<and> req_body (pay 1 ''00'') = Some (callback ''00'')
   \<and> \<not> no_user (userId (sessions logged_in (sid (pay 1 ''00''))))
   \<and> process_env stub_env ''RAZORPAY_KEY_SECRET'' = Some ''k''
   \<and> callback ''00'' ''razorpay_signature''
       \<noteq> JStr (generated_signature stub_env ''k'' (callback ''00''))
   \<and> response (serve stub_env (pay 1 ''00'') logged_in) = Respond 400 (Text ''Invalid signature'')
   \<and> step stub_env (pay 1 ''00'') logged_in = logged_in
   \<and> map has_paid (rows (store (step stub_env (pay 1 ''00'') logged_in))) = [False, False]"
proof -
  have h: "route (pay 1 ''00'') = PaymentSuccess"
    "req_body (pay 1 ''00'') = Some (callback ''00'')"
    "\<not> no_user (userId (sessions logged_in (sid (pay 1 ''00''))))"
    "process_env stub_env ''RAZORPAY_KEY_SECRET'' = Some ''k''"
    "callback ''00'' ''razorpay_signature''
       \<noteq> JStr (generated_signature stub_env ''k'' (callback ''00''))"
    by (simp_all add: fixtures evals)
  have "map has_paid (rows (store logged_in)) = [False, False]"
    by (simp add: fixtures)
  with h payment_success_invalid_signature [OF h] show ?thesis
    by simp
qed

text \<open>
  Claim C3 says that every request to /payment-success without an authenticated
  session is answered 401. Line 104 destructures \<open>req.body\<close> before the session
  check of line 106: a request for which no body was parsed makes the handler
  throw there, whoever sends it, and the answer is not 401.
\<close>

theorem payment_success_bodiless_anonymous_counterexample:
  "route (pay_bare 3) = PaymentSuccess
   \<and> no_user (userId (sessions logged_in (sid (pay_bare 3))))
   \<and> response (serve stub_env (pay_bare 3) logged_in) = Rejected
   \<and> response (serve stub_env (pay_bare 3) logged_in) \<noteq> Respond 401 (Text ''Login required'')"
  by (simp add: fixtures serve_def payment_success_def outcome_def)

lemma payment_success_bodiless:
  "payment_success e None d s = outcome Rejected d s []"
  by (simp add: payment_success_def)

text \<open>
  Claim C3, amended. A request to /payment-success whose session carries no user
  has no effect at all: no HMAC is computed, no statement reaches the store, and
  the server state is as before. It is answered 401 "Login required" when its
  body was parsed; when \<open>req.body\<close> is \<open>undefined\<close> the handler throws at line
  104. Conversely, a handler run that performed any effect (the first of which is
  the HMAC computation) had a parsed body and had passed the session check. In
  every state that requests produce from the initial one, a session carries no
  user exactly when its \<open>userId\<close> is \<open>undefined\<close>, that is when no login succeeded
  in it.
\<close>

theorem payment_success_requires_login:
  assumes "route r = PaymentSuccess"
  shows "(no_user (userId (sessions sv (sid r))) \<longrightarrow>
            (req_body r \<noteq> None \<longrightarrow>
               response (serve e r sv) = Respond 401 (Text ''Login required''))
          \<and> (req_body r = None \<longrightarrow> response (serve e r sv) = Rejected)
          \<and> effects (serve e r sv) = []
          \<and> step e r sv = sv)
       \<and> (effects (serve e r sv) \<noteq> [] \<longrightarrow>
            \<not> no_user (userId (sessions sv (sid r))) \<and> req_body r \<noteq> None)
       \<and> (no_user (userId (sessions (run ers initial) c))
            \<longleftrightarrow> userId (sessions (run ers initial) c) = None)"
proof -
  have reach: "no_user (userId (sessions (run ers initial) c))
      \<longleftrightarrow> userId (sessions (run ers initial) c) = None"
  proof (cases "userId (sessions (run ers initial) c)")
    case None
    then show ?thesis by simp
  next
    case (Some uid)
    with reachable_session_user [of ers c uid] show ?thesis by simp
  qed
  have quiet: "effects (serve e r sv) = [] \<and> step e r sv = sv
      \<and> response (serve e r sv) = resp"
    if out: "serve e r sv = outcome resp (store sv) (sessions sv (sid r)) []" for resp
  proof -
    from out have "step e r sv = sv"
      by (intro step_unchanged) (simp_all add: outcome_def)
    with out show ?thesis by (simp add: outcome_def)
  qed
  have bodiless: "effects (serve e r sv) = [] \<and> step e r sv = sv
      \<and> response (serve e r sv) = Rejected"
    if "req_body r = None"
    using assms that by (intro quiet) (simp add: serve_payment_success payment_success_bodiless)
  have anon: "effects (serve e r sv) = [] \<and> step e r sv = sv
      \<and> response (serve e r sv) = Respond 401 (Text ''Login required'')"
    if "no_user (userId (sessions sv (sid r)))" "req_body r \<noteq> None"
  proof -
    from that(2) obtain b where "req_body r = Some b" by blast
    with assms that(1) show ?thesis
      by (intro quiet) (simp add: serve_payment_success payment_success_anonymous)
  qed
  from reach bodiless anon show ?thesis by blast
qed

theorem payment_success_requires_login_witness:
  "route (pay 3 ''6b6f317c7031'') = PaymentSuccess
   \<and> no_user (userId (sessions logged_in (sid (pay 3 ''6b6f317c7031''))))
   \<and> req_body (pay 3 ''6b6f317c7031'') \<noteq> None
   \<and> response (serve stub_env (pay 3 ''6b6f317c7031'') logged_in) = Respond 401 (Text ''Login required'')
   \<and> effects (serve stub_env (pay 3 ''6b6f317c7031'') logged_in) = []
   \<and> step stub_env (pay 3 ''6b6f317c7031'') logged_in = logged_in
   \<and> route (pay_bare 3) = PaymentSuccess
   \<and> no_user (userId (sessions logged_in (sid (pay_bare 3))))
   \<and> req_body (pay_bare 3) = None
   \<and> response (serve stub_env (pay_bare 3) logged_in) = Rejected
   \<and> effects (serve stub_env (pay_bare 3) logged_in) = []
   \<and> step stub_env (pay_bare 3) logged_in = logged_in
   \<and> effects (serve stub_env (pay 1 ''6b6f317c7031'') logged_in) \<noteq> []
   \<and> \<not> no_user (userId (sessions logged_in (sid (pay 1 ''6b6f317c7031''))))"
proof -
  have h: "route (pay 3 ''6b6f317c7031'') = PaymentSuccess"
    "route (pay 1 ''6b6f317c7031'') = PaymentSuccess"
    "route (pay_bare 3) = PaymentSuccess"
    by (simp_all add: pay_def pay_bare_def)
  have a: "no_user (userId (sessions logged_in (sid (pay 3 ''6b6f317c7031''))))"
    "no_user (userId (sessions logged_in (sid (pay_bare 3))))"
    "req_body (pay 3 ''6b6f317c7031'') \<noteq> None"
    "req_body (pay_bare 3) = None"
    by (simp_all add: fixtures)
  have b: "effects (serve stub_env (pay 1 ''6b6f317c7031'') logged_in) \<noteq> []"
    by (simp add: fixtures evals)
  from payment_success_requires_login [OF h(1), where sv = logged_in and e = stub_env]
    payment_success_requires_login [OF h(3), where sv = logged_in and e = stub_env]
    payment_success_requires_login [OF h(2), where sv = logged_in and e = stub_env,
      THEN conjunct2, THEN conjunct1] h a b
  show ?thesis by blast
qed

text \<open>
  Claim C4. On /payment-success with a parsed body, a user in the session and a
  matching signature: when the store answers, the effects are, in this order, the HMAC
  computation, the UPDATE for the session's user and the session update; the
  answer is 200 \<open>{ok: true}\<close>, every row with the session's user id has
  \<open>has_paid\<close> true and the session's \<open>hasPaid\<close> is true. When the store
  write fails (in the model: the store does not answer), the answer is 500
  "DB error", no session update follows the failed UPDATE, and sessions and store
  are as before.
\<close>

theorem payment_success_write_order:
  assumes "route r = PaymentSuccess"
    and "req_body r = Some b"
    and "userId (sessions sv (sid r)) = Some uid" and "uid \<noteq> 0"
    and "process_env e ''RAZORPAY_KEY_SECRET'' = Some key"
    and "b ''razorpay_signature'' = JStr (generated_signature e key b)"
  shows "(db_up e \<longrightarrow>
            response (serve e r sv) = Respond 200 JsonOkTrue
          \<and> effects (serve e r sv) =
              [HmacDigest ''sha256'' key (signed_data b) ''hex'',
               DbQuery (SetHasPaidTrue uid), SetSessionHasPaid True]
          \<and> (\<forall>u \<in> set (rows (store (step e r sv))). row_id u = uid \<longrightarrow> has_paid u)
          \<and> hasPaid (sessions (step e r sv) (sid r)) = Some True)
       \<and> (\<not> db_up e \<longrightarrow>
            response (serve e r sv) = Respond 500 (Text ''DB error'')
          \<and> effects (serve e r sv) =
              [HmacDigest ''sha256'' key (signed_data b) ''hex'',
               DbQuery (SetHasPaidTrue uid), ConsoleError]
          \<and> sessions (step e r sv) = sessions sv
          \<and> store (step e r sv) = store sv)"
proof (cases "db_up e")
  case True
  have "serve e r sv =
      outcome (Respond 200 JsonOkTrue)
        ((store sv)\<lparr>rows := map (\<lambda>u. if row_id u = uid then u\<lparr>has_paid := True\<rparr> else u)
           (rows (store sv))\<rparr>)
        ((sessions sv (sid r))\<lparr>hasPaid := Some True\<rparr>)
        [HmacDigest ''sha256'' key (signed_data b) ''hex'',
         DbQuery (SetHasPaidTrue uid), SetSessionHasPaid True]"
    using assms True by (simp add: serve_payment_success payment_success_verified)
  then have resp: "response (serve e r sv) = Respond 200 JsonOkTrue"
    and fx: "effects (serve e r sv) =
      [HmacDigest ''sha256'' key (signed_data b) ''hex'',
       DbQuery (SetHasPaidTrue uid), SetSessionHasPaid True]"
    and rws: "rows (store (step e r sv)) =
      map (\<lambda>u. if row_id u = uid then u\<lparr>has_paid := True\<rparr> else u) (rows (store sv))"
    and sess: "hasPaid (sessions (step e r sv) (sid r)) = Some True"
    by (simp_all add: step_def outcome_def)
  have "\<forall>u \<in> set (rows (store (step e r sv))). row_id u = uid \<longrightarrow> has_paid u"
    unfolding rws using marked_paid by blast
  with resp fx sess True show ?thesis
    by blast
next
  case False
  have "serve e r sv =
      outcome (Respond 500 (Text ''DB error'')) (store sv) (sessions sv (sid r))
        [HmacDigest ''sha256'' key (signed_data b) ''hex'',
         DbQuery (SetHasPaidTrue uid), ConsoleError]"
    using assms False by (simp add: serve_payment_success payment_success_verified)
  with False show ?thesis
    by (simp add: step_def outcome_def)
qed

theorem payment_success_write_order_witness:
  "route (pay 1 ''6b6f317c7031'') = PaymentSuccess
   \<and> userId (sessions logged_in (sid (pay 1 ''6b6f317c7031''))) = Some 1
   \<and> process_env stub_env ''RAZORPAY_KEY_SECRET'' = Some ''k''
   \<and> req_body (pay 1 ''6b6f317c7031'') = Some (callback ''6b6f317c7031'')
   \<and> callback ''6b6f317c7031'' ''razorpay_signature''
       = JStr (generated_signature stub_env ''k'' (callback ''6b6f317c7031''))
   \<and> db_up stub_env
   \<and> effects (serve stub_env (pay 1 ''6b6f317c7031'') logged_in) =
       [HmacDigest ''sha256'' ''k'' ''o1|p1'' ''hex'', DbQuery (SetHasPaidTrue 1),
        SetSessionHasPaid True]
   \<and> response (serve stub_env (pay 1 ''6b6f317c7031'') logged_in) = Respond 200 JsonOkTrue
   \<and> map has_paid (rows (store (step stub_env (pay 1 ''6b6f317c7031'') logged_in))) = [True, False]
   \<and> hasPaid (sessions (step stub_env (pay 1 ''6b6f317c7031'') logged_in) 1) = Some True
   \<and> \<not> db_up (stub_env\<lparr>db_up := False\<rparr>)
   \<and> response (serve (stub_env\<lparr>db_up := False\<rparr>) (pay 1 ''6b6f317c7031'') logged_in)
       = Respond 500 (Text ''DB error'')
   \<and> effects (serve (stub_env\<lparr>db_up := False\<rparr>) (pay 1 ''6b6f317c7031'') logged_in) =
       [HmacDigest ''sha256'' ''k'' ''o1|p1'' ''hex'', DbQuery (SetHasPaidTrue 1), ConsoleError]
   \<and> hasPaid (sessions (step (stub_env\<lparr>db_up := False\<rparr>) (pay 1 ''6b6f317c7031'') logged_in) 1)
       = Some False
   \<and> store (step (stub_env\<lparr>db_up := False\<rparr>) (pay 1 ''6b6f317c7031'') logged_in) = store logged_in"
proof -
  have h: "route (pay 1 ''6b6f317c7031'') = PaymentSuccess"
    "req_body (pay 1 ''6b6f317c7031'') = Some (callback ''6b6f317c7031'')"
    "userId (sessions logged_in (sid (pay 1 ''6b6f317c7031''))) = Some 1"
    "(1::int) \<noteq> 0"
    by (simp_all add: fixtures)
  have k: "process_env stub_env ''RAZORPAY_KEY_SECRET'' = Some ''k''"
    "process_env (stub_env\<lparr>db_up := False\<rparr>) ''RAZORPAY_KEY_SECRET'' = Some ''k''"
    by (simp_all add: fixtures)
  have g: "callback ''6b6f317c7031'' ''razorpay_signature''
       = JStr (generated_signature stub_env ''k'' (callback ''6b6f317c7031''))"
    "callback ''6b6f317c7031'' ''razorpay_signature''
       = JStr (generated_signature (stub_env\<lparr>db_up := False\<rparr>) ''k'' (callback ''6b6f317c7031''))"
    by (simp_all add: fixtures evals)
  have u: "db_up stub_env" "\<not> db_up (stub_env\<lparr>db_up := False\<rparr>)"
    by (simp_all add: fixtures)
  have sd: "signed_data (callback ''6b6f317c7031'') = ''o1|p1''"
    by (simp add: fixtures evals)
  have m: "map has_paid (rows (store (step stub_env (pay 1 ''6b6f317c7031'') logged_in))) = [True, False]"
    by (simp add: fixtures evals)
  have s0: "hasPaid (sessions logged_in 1) = Some False"
    by (simp add: fixtures)
  from payment_success_write_order [OF h k(1) g(1)]
    payment_success_write_order [OF h k(2) g(2)] h k g u sd m s0
  show ?thesis by (simp add: pay_def)
qed

text \<open>
  Claim C10. The handler checks the callback against the secret only. In every
  server state, whatever requests led to it, for every session that carries a
  user and every body whose order id, payment id and signature are such that the
  signature equals the HMAC of the pair, the handler (the store answering) answers 200 and
  sets \<open>has_paid\<close> for exactly the rows of the session's user, and the session's
  \<open>hasPaid\<close>. No premise speaks of an order having been created, of its
  amount or of whom it was created for: the server keeps no record of orders. In
  the example one callback, for an order that /create-order never made, marks
  both Alice and Bob paid.
\<close>

theorem payment_success_binds_only_secret:
  assumes "route r = PaymentSuccess"
    and "req_body r = Some b"
    and "userId (sessions sv (sid r)) = Some uid" and "uid \<noteq> 0"
    and "process_env e ''RAZORPAY_KEY_SECRET'' = Some key"
    and "db_up e"
    and "b ''razorpay_signature'' = JStr (generated_signature e key b)"
  shows "response (serve e r sv) = Respond 200 JsonOkTrue
       \<and> rows (store (step e r sv)) =
           map (\<lambda>u. if row_id u = uid then u\<lparr>has_paid := True\<rparr> else u) (rows (store sv))
       \<and> hasPaid (sessions (step e r sv) (sid r)) = Some True"
  using assms
  by (simp add: serve_payment_success payment_success_verified step_def Let_def outcome_def)

theorem payment_success_binds_only_secret_witness:
  "route (pay 2 ''6b6f317c7031'') = PaymentSuccess
   \<and> userId (sessions (step stub_env (pay 1 ''6b6f317c7031'') logged_in) (sid (pay 2 ''6b6f317c7031''))) = Some 2
   \<and> process_env stub_env ''RAZORPAY_KEY_SECRET'' = Some ''k''
   \<and> db_up stub_env
   \<and> req_body (pay 2 ''6b6f317c7031'') = Some (callback ''6b6f317c7031'')
   \<and> callback ''6b6f317c7031'' ''razorpay_signature''
       = JStr (generated_signature stub_env ''k'' (callback ''6b6f317c7031''))
   \<and> response (serve stub_env (pay 2 ''6b6f317c7031'') (step stub_env (pay 1 ''6b6f317c7031'') logged_in))
       = Respond 200 JsonOkTrue
   \<and> map has_paid (rows (store
         (run [(stub_env, pay 1 ''6b6f317c7031''), (stub_env, pay 2 ''6b6f317c7031'')] logged_in)))
       = [True, True]"
proof -
  let ?sv = "step stub_env (pay 1 ''6b6f317c7031'') logged_in"
  have h: "route (pay 2 ''6b6f317c7031'') = PaymentSuccess"
    "req_body (pay 2 ''6b6f317c7031'') = Some (callback ''6b6f317c7031'')"
    "userId (sessions ?sv (sid (pay 2 ''6b6f317c7031''))) = Some 2"
    "(2::int) \<noteq> 0"
    "process_env stub_env ''RAZORPAY_KEY_SECRET'' = Some ''k''"
    "db_up stub_env"
    "callback ''6b6f317c7031'' ''razorpay_signature''
       = JStr (generated_signature stub_env ''k'' (callback ''6b6f317c7031''))"
    by (simp_all add: fixtures evals)
  have m: "map has_paid (rows (store ?sv)) = [True, False]"
    "map row_id (rows (store ?sv)) = [1, 2]"
    by (simp_all add: fixtures evals)
  have "map has_paid (rows (store (step stub_env (pay 2 ''6b6f317c7031'') ?sv))) = [True, True]"
    using payment_success_binds_only_secret [OF h] m
    by (simp add: fixtures evals)
  with payment_success_binds_only_secret [OF h] h show ?thesis
    by simp
qed

subsection \<open>Login\<close>

lemma login_unknown:
  assumes "db_up e"
    and "filter (\<lambda>u. Some (email u) = pg_param (b ''email'')) (rows d) = []"
  shows "login e (Some b) d s =
     outcome (Respond 401 (Text ''Invalid'')) d s [DbQuery (SelectUserByEmail (pg_param (b ''email'')))]"
  using assms by (simp add: login_def)

lemma login_known:
  assumes "db_up e"
    and "filter (\<lambda>u. Some (email u) = pg_param (b ''email'')) (rows d) = u # us"
  shows "login e (Some b) d s =
     (case bcrypt_compare e (b ''password'') (password u) of
        None \<Rightarrow> outcome Rejected d s
          [DbQuery (SelectUserByEmail (pg_param (b ''email''))),
           BcryptCompare (b ''password'') (password u)]
      | Some ok \<Rightarrow>
          if ok
          then outcome (Respond 200 (Text ''Login successful'')) d
                 (s\<lparr>userId := Some (row_id u), hasPaid := Some (has_paid u)\<rparr>)
                 [DbQuery (SelectUserByEmail (pg_param (b ''email''))),
                  BcryptCompare (b ''password'') (password u),
                  SetSessionUserId (row_id u), SetSessionHasPaid (has_paid u)]
          else outcome (Respond 401 (Text ''Invalid'')) d s
                 [DbQuery (SelectUserByEmail (pg_param (b ''email''))),
                  BcryptCompare (b ''password'') (password u)])"
  using assms by (simp add: login_def split: option.splits)

lemma login_success_iff:
  "response (login e (Some b) d s) = Respond 200 (Text ''Login successful'') \<longleftrightarrow>
     db_up e \<and> (\<exists>u us. filter (\<lambda>u. Some (email u) = pg_param (b ''email'')) (rows d) = u # us
        \<and> bcrypt_compare e (b ''password'') (password u) = Some True)"
proof (cases "db_up e")
  case False
  then show ?thesis by (simp add: login_def outcome_def)
next
  case True
  show ?thesis
  proof (cases "filter (\<lambda>u. Some (email u) = pg_param (b ''email'')) (rows d)")
    case Nil
    with True show ?thesis by (simp add: login_unknown outcome_def)
  next
    case (Cons u us)
    with True show ?thesis
      by (simp add: login_known outcome_def split: option.splits)
  qed
qed

lemma login_responses:
  "response (login e (Some b) d s) = Rejected
   \<or> response (login e (Some b) d s) = Respond 401 (Text ''Invalid'')
   \<or> response (login e (Some b) d s) = Respond 200 (Text ''Login successful'')"
proof (cases "db_up e")
  case False
  then show ?thesis by (simp add: login_def outcome_def)
next
  case True
  show ?thesis
  proof (cases "filter (\<lambda>u. Some (email u) = pg_param (b ''email'')) (rows d)")
    case Nil
    with True show ?thesis by (simp add: login_unknown outcome_def)
  next
    case (Cons u us)
    with True show ?thesis
      by (simp add: login_known outcome_def split: option.splits)
  qed
qed

text \<open>
  Where the claim of C5 holds: when the store answers, a login whose email
  matches no row and a login whose email matches a row but whose password the
  verifier refuses (\<open>bcrypt.compare\<close> answers false) get the same response, 401
  "Invalid", and neither changes the session or the store. A login with a parsed
  body that is answered at all is answered either 401 "Invalid" or 200 "Login
  successful", and 200 exactly when the store answered, the email matched a row
  and the verifier accepted the password against the hash of the first such row:
  with a wrong password login never succeeds.
\<close>

lemma login_refused_password:
  assumes "db_up e" and "db_up e'"
    and "filter (\<lambda>u. Some (email u) = pg_param (b ''email'')) (rows d) = []"
    and "filter (\<lambda>u. Some (email u) = pg_param (b' ''email'')) (rows d') = u # us"
    and "bcrypt_compare e' (b' ''password'') (password u) = Some False"
  shows "response (login e (Some b) d s) = Respond 401 (Text ''Invalid'')
       \<and> response (login e' (Some b') d' s') = Respond 401 (Text ''Invalid'')
       \<and> session_after (login e' (Some b') d' s') = s' \<and> db_after (login e' (Some b') d' s') = d'
       \<and> session_after (login e (Some b) d s) = s \<and> db_after (login e (Some b) d s) = d"
  using assms by (simp add: login_unknown login_known outcome_def)

text \<open>
  Where it fails: \<open>bcrypt.compare\<close> is awaited outside any try block (line 80),
  and only when a row was found. For a password that is missing or not a string
  the call rejects, so the handler answers 401 "Invalid" when the email is
  unknown and throws when the email is known.
\<close>

lemma login_password_not_a_string:
  assumes "db_up e" and "\<forall>p. b ''password'' \<noteq> JStr p"
  shows "(filter (\<lambda>u. Some (email u) = pg_param (b ''email'')) (rows d) = [] \<longrightarrow>
            response (login e (Some b) d s) = Respond 401 (Text ''Invalid''))
       \<and> (filter (\<lambda>u. Some (email u) = pg_param (b ''email'')) (rows d) \<noteq> [] \<longrightarrow>
            response (login e (Some b) d s) = Rejected)"
proof -
  have none: "bcrypt_compare e (b ''password'') h = None" for h
    using assms(2) by (cases "b ''password''") simp_all
  show ?thesis
  proof (cases "filter (\<lambda>u. Some (email u) = pg_param (b ''email'')) (rows d)")
    case Nil
    with assms(1) show ?thesis by (simp add: login_unknown outcome_def)
  next
    case (Cons u us)
    with assms(1) none show ?thesis by (simp add: login_known outcome_def)
  qed
qed

text \<open>
  Claim C5. The claim says that the response of /login to an unknown email is the
  same as its response to a known email with a wrong password. The code gives
  both the answer 401 "Invalid", yet misses the case of a password that is not a
  string: with Alice registered, a login that names her email and sends no
  password is not answered 401 (the handler throws), while the same login for an
  email that nobody registered is answered 401 "Invalid".
\<close>

theorem login_missing_password_distinguishes:
  "response (login stub_env (Some (form [(''email'', ''a@x.com'')])) (store logged_in) empty_session)
     = Rejected
   \<and> response (login stub_env (Some (form [(''email'', ''c@x.com'')])) (store logged_in) empty_session)
     = Respond 401 (Text ''Invalid'')"
  by (simp add: fixtures login_def outcome_def)

subsection \<open>Order creation\<close>

text \<open>
  Claim C6. /create-order calls the gateway first, with amount 20000, currency
  INR and a receipt made from the clock; every gateway call it makes has amount
  20000; its outcome is the same for every request body; the gateway's order
  object, when there is one, is the body of the 200 response unchanged, and a
  failing gateway call gives 500 "Order creation failed". Store and session are
  untouched.
\<close>

theorem create_order_fixed_amount:
  "(\<exists>later. effects (create_order e b d s) =
       OrdersCreate \<lparr>amount = 20000, currency = ''INR'', receipt = ''rcpt_'' @ show_nat (now e)\<rparr>
         # later)
   \<and> (\<forall>rq. OrdersCreate rq \<in> set (effects (create_order e b d s)) \<longrightarrow> amount rq = 20000)
   \<and> create_order e b' d s = create_order e b d s
   \<and> (\<forall>order. orders_create e
          \<lparr>amount = 20000, currency = ''INR'', receipt = ''rcpt_'' @ show_nat (now e)\<rparr> = Some order
        \<longrightarrow> response (create_order e b d s) = Respond 200 (JsonOrder order))
   \<and> (orders_create e
          \<lparr>amount = 20000, currency = ''INR'', receipt = ''rcpt_'' @ show_nat (now e)\<rparr> = None
        \<longrightarrow> response (create_order e b d s) = Respond 500 (Text ''Order creation failed''))
   \<and> db_after (create_order e b d s) = d \<and> session_after (create_order e b d s) = s"
  by (cases "orders_create e (order_params (now e))")
     (simp_all add: create_order_def order_params_def outcome_def)

theorem create_order_fixed_amount_witness:
  "orders_create stub_env \<lparr>amount = 20000, currency = ''INR'', receipt = ''rcpt_7''\<rparr> = Some ()
   \<and> response (create_order stub_env (Some (form [(''amount'', ''1'')])) (store logged_in) empty_session)
       = Respond 200 (JsonOrder ())
   \<and> effects (create_order stub_env (Some (form [(''amount'', ''1'')])) (store logged_in) empty_session)
       = [OrdersCreate \<lparr>amount = 20000, currency = ''INR'', receipt = ''rcpt_7''\<rparr>]
   \<and> orders_create (stub_env\<lparr>orders_create := (\<lambda>r. None)\<rparr>)
        \<lparr>amount = 20000, currency = ''INR'', receipt = ''rcpt_7''\<rparr> = None
   \<and> response (create_order (stub_env\<lparr>orders_create := (\<lambda>r. None)\<rparr>) (Some (form [(''amount'', ''1'')]))
        (store logged_in) empty_session) = Respond 500 (Text ''Order creation failed'')"
proof -
  have n: "now stub_env = 7" "now (stub_env\<lparr>orders_create := (\<lambda>r. None)\<rparr>) = 7"
    "show_nat 7 = ''7''"
    by (simp_all add: fixtures)
  have h: "orders_create stub_env \<lparr>amount = 20000, currency = ''INR'', receipt = ''rcpt_7''\<rparr> = Some ()"
    "orders_create (stub_env\<lparr>orders_create := (\<lambda>r. None)\<rparr>)
        \<lparr>amount = 20000, currency = ''INR'', receipt = ''rcpt_7''\<rparr> = None"
    by (simp_all add: fixtures)
  have fx: "effects (create_order stub_env (Some (form [(''amount'', ''1'')])) (store logged_in) empty_session)
       = [OrdersCreate \<lparr>amount = 20000, currency = ''INR'', receipt = ''rcpt_7''\<rparr>]"
    by (simp add: create_order_def order_params_def outcome_def fixtures)
  from create_order_fixed_amount [of stub_env "Some (form [(''amount'', ''1'')])" "store logged_in" empty_session]
    create_order_fixed_amount [of "stub_env\<lparr>orders_create := (\<lambda>r. None)\<rparr>"
       "Some (form [(''amount'', ''1'')])" "store logged_in" empty_session]
    n h fx
  show ?thesis by simp
qed

subsection \<open>The dashboard\<close>

text \<open>
  Claim C7. GET /dashboard redirects to /login.html when the session carries no
  user, to /payment.html when it carries a user and \<open>hasPaid\<close> is not true, and
  sends dashboard.html exactly when the session carries a user and \<open>hasPaid\<close> is
  true. It has no effect (no statement reaches the store), leaves store and
  session as they are, and its response depends on the session alone.
\<close>

theorem dashboard_gate:
  "(no_user (userId s) \<longrightarrow> response (dashboard e b d s) = Redirect ''/login.html'')
   \<and> (\<not> no_user (userId s) \<and> not_paid (hasPaid s) \<longrightarrow>
        response (dashboard e b d s) = Redirect ''/payment.html'')
   \<and> (response (dashboard e b d s) = SendFile ''../frontend/dashboard.html'' \<longleftrightarrow>
        (\<exists>i. userId s = Some i \<and> i \<noteq> 0) \<and> hasPaid s = Some True)
   \<and> effects (dashboard e b d s) = []
   \<and> db_after (dashboard e b d s) = d
   \<and> session_after (dashboard e b d s) = s
   \<and> response (dashboard e' b' d' s) = response (dashboard e b d s)"
proof -
  have "no_user (userId s) \<longleftrightarrow> \<not> (\<exists>i. userId s = Some i \<and> i \<noteq> 0)"
    by (cases "userId s") simp_all
  moreover have "not_paid (hasPaid s) \<longleftrightarrow> hasPaid s \<noteq> Some True"
    by (cases "hasPaid s") simp_all
  ultimately show ?thesis
    by (simp add: dashboard_def outcome_def)
qed

theorem dashboard_gate_witness:
  "no_user (userId empty_session)
   \<and> response (dashboard stub_env None (store logged_in) empty_session) = Redirect ''/login.html''
   \<and> \<not> no_user (userId (sessions logged_in 1)) \<and> not_paid (hasPaid (sessions logged_in 1))
   \<and> response (dashboard stub_env None (store logged_in) (sessions logged_in 1))
       = Redirect ''/payment.html''
   \<and> response (dashboard stub_env None (store logged_in)
         (sessions (step stub_env (pay 1 ''6b6f317c7031'') logged_in) 1))
       = SendFile ''../frontend/dashboard.html''"
proof -
  have a: "no_user (userId empty_session)"
    "\<not> no_user (userId (sessions logged_in 1)) \<and> not_paid (hasPaid (sessions logged_in 1))"
    by (simp_all add: fixtures)
  have b: "sessions (step stub_env (pay 1 ''6b6f317c7031'') logged_in) 1
      = \<lparr>userId = Some 1, hasPaid = Some True\<rparr>"
    by (simp add: fixtures evals)
  from dashboard_gate [of empty_session stub_env None "store logged_in"]
    dashboard_gate [of "sessions logged_in 1" stub_env None "store logged_in"]
    dashboard_gate [of "\<lparr>userId = Some 1, hasPaid = Some True\<rparr>" stub_env None "store logged_in"]
    a b
  show ?thesis by simp
qed

subsection \<open>The paid flag over the life of the server\<close>

lemma insert_user_rows:
  "insert_user t n m p d = Inr d' \<Longrightarrow> \<exists>u. rows d' = rows d @ [u] \<and> \<not> has_paid u"
  by (auto simp: insert_user_def split: option.splits if_splits)

lemma register_rows_parsed:
  "rows (db_after (register e (Some b) d s)) = rows d
   \<or> (\<exists>u. rows (db_after (register e (Some b) d s)) = rows d @ [u] \<and> \<not> has_paid u)"
proof (cases "falsy (b ''name'') \<or> falsy (b ''email'') \<or> falsy (b ''password'')")
  case True
  then show ?thesis by (simp add: register_def outcome_def)
next
  case valid: False
  show ?thesis
  proof (cases "bcrypt_hash e (b ''password'') 10")
    case None
    with valid show ?thesis by (simp add: register_def outcome_def)
  next
    case (Some hashed)
    show ?thesis
    proof (cases "db_query (db_up e) (now e)
        (InsertUser (pg_param (b ''name'')) (pg_param (b ''email'')) hashed) d")
      case (Inl err)
      with valid Some show ?thesis by (simp add: register_def outcome_def)
    next
      case (Inr res)
      obtain rs d' where res: "res = (rs, d')" by (cases res)
      from Inr res have "insert_user (now e) (pg_param (b ''name'')) (pg_param (b ''email'')) hashed d
          = Inr d'"
        by (cases "db_up e") (simp_all split: sum.splits)
      then have "\<exists>u. rows d' = rows d @ [u] \<and> \<not> has_paid u"
        by (rule insert_user_rows)
      moreover have "db_after (register e (Some b) d s) = d'"
        using valid Some Inr res by (simp add: register_def outcome_def)
      ultimately show ?thesis by simp
    qed
  qed
qed

lemma store_step: "store (step e r sv) = db_after (serve e r sv)"
  by (simp add: step_def Let_def)

lemma login_db: "db_after (login e rb d s) = d"
  by (simp add: login_def outcome_def Let_def
      split: sum.splits list.splits option.splits prod.splits)

lemma create_order_db: "db_after (create_order e rb d s) = d"
  by (simp add: create_order_def outcome_def split: option.splits)

lemma contact_db: "db_after (contact e rb d s) = d"
  by (simp add: contact_def outcome_def split: option.splits)

lemma dashboard_db: "db_after (dashboard e rb d s) = d"
  by (simp add: dashboard_def outcome_def)

lemma payment_success_rows_parsed:
  "rows (db_after (payment_success e (Some b) d s)) = rows d
   \<or> (\<exists>uid. rows (db_after (payment_success e (Some b) d s)) =
         map (\<lambda>u. if row_id u = uid then u\<lparr>has_paid := True\<rparr> else u) (rows d))"
proof (cases "db_after (payment_success e (Some b) d s) = d")
  case True
  then show ?thesis by simp
next
  case False
  then have "db_after (payment_success e (Some b) d s) =
      d\<lparr>rows := map (\<lambda>u. if row_id u = the (userId s) then u\<lparr>has_paid := True\<rparr> else u)
        (rows d)\<rparr>"
    by (cases "db_up e")
       (simp_all add: payment_success_def outcome_def Let_def split: option.splits if_splits)
  then have "rows (db_after (payment_success e (Some b) d s)) =
      map (\<lambda>u. if row_id u = the (userId s) then u\<lparr>has_paid := True\<rparr> else u) (rows d)"
    by simp
  then show ?thesis by blast
qed

lemma payment_success_rows:
  "rows (db_after (payment_success e rb d s)) = rows d
   \<or> (\<exists>uid. rows (db_after (payment_success e rb d s)) =
         map (\<lambda>u. if row_id u = uid then u\<lparr>has_paid := True\<rparr> else u) (rows d))"
proof (cases rb)
  case None
  then show ?thesis by (simp add: payment_success_def outcome_def)
next
  case (Some b)
  with payment_success_rows_parsed [of e b d s] show ?thesis by simp
qed

lemma register_rows:
  "rows (db_after (register e rb d s)) = rows d
   \<or> (\<exists>u. rows (db_after (register e rb d s)) = rows d @ [u] \<and> \<not> has_paid u)"
proof (cases rb)
  case None
  then show ?thesis by (simp add: register_def outcome_def)
next
  case (Some b)
  with register_rows_parsed [of e b d s] show ?thesis by simp
qed

lemma step_rows:
  "rows (store (step e r sv)) = rows (store sv)
   \<or> (route r = PaymentSuccess \<and>
       (\<exists>uid. rows (store (step e r sv)) =
          map (\<lambda>u. if row_id u = uid then u\<lparr>has_paid := True\<rparr> else u) (rows (store sv))))
   \<or> (route r = Register \<and>
       (\<exists>u. rows (store (step e r sv)) = rows (store sv) @ [u] \<and> \<not> has_paid u))"
proof (cases "route r")
  case Register
  with register_rows [of e "req_body r" "store sv" "sessions sv (sid r)"]
  show ?thesis by (simp add: store_step serve_def)
next
  case Login
  then show ?thesis by (simp add: store_step serve_def login_db)
next
  case CreateOrder
  then show ?thesis by (simp add: store_step serve_def create_order_db)
next
  case PaymentSuccess
  with payment_success_rows [of e "req_body r" "store sv" "sessions sv (sid r)"]
  show ?thesis by (simp add: store_step serve_def)
next
  case Contact
  then show ?thesis by (simp add: store_step serve_def contact_db)
next
  case Dashboard
  then show ?thesis by (simp add: store_step serve_def dashboard_db)
qed

lemma step_rows_mono:
  "length (rows (store sv)) \<le> length (rows (store (step e r sv)))
   \<and> (\<forall>i < length (rows (store sv)).
        row_id (rows (store (step e r sv)) ! i) = row_id (rows (store sv) ! i)
      \<and> (has_paid (rows (store sv) ! i) \<longrightarrow> has_paid (rows (store (step e r sv)) ! i)))"
proof -
  consider
    (same) "rows (store (step e r sv)) = rows (store sv)"
  | (paid) uid where "rows (store (step e r sv)) =
          map (\<lambda>u. if row_id u = uid then u\<lparr>has_paid := True\<rparr> else u) (rows (store sv))"
  | (new) u where "rows (store (step e r sv)) = rows (store sv) @ [u]"
    using step_rows [of e r sv] by blast
  then show ?thesis
  proof cases
    case same
    then show ?thesis by simp
  next
    case paid
    then show ?thesis by simp
  next
    case new
    then show ?thesis by (simp add: nth_append)
  qed
qed

lemma run_rows_mono:
  "length (rows (store sv)) \<le> length (rows (store (run ers sv)))
   \<and> (\<forall>i < length (rows (store sv)).
        row_id (rows (store (run ers sv)) ! i) = row_id (rows (store sv) ! i)
      \<and> (has_paid (rows (store sv) ! i) \<longrightarrow> has_paid (rows (store (run ers sv)) ! i)))"
proof (induction ers arbitrary: sv)
  case Nil
  show ?case by simp
next
  case (Cons er ers)
  obtain e r where er: "er = (e, r)" by (cases er)
  let ?old = "rows (store sv)"
  let ?mid = "rows (store (step e r sv))"
  let ?new = "rows (store (run ers (step e r sv)))"
  have s1: "length ?old \<le> length ?mid"
    and s2: "\<And>i. i < length ?old \<Longrightarrow> row_id (?mid ! i) = row_id (?old ! i)"
    and s3: "\<And>i. i < length ?old \<Longrightarrow> has_paid (?old ! i) \<Longrightarrow> has_paid (?mid ! i)"
    using step_rows_mono [of sv e r] by blast+
  have r1: "length ?mid \<le> length ?new"
    and r2: "\<And>i. i < length ?mid \<Longrightarrow> row_id (?new ! i) = row_id (?mid ! i)"
    and r3: "\<And>i. i < length ?mid \<Longrightarrow> has_paid (?mid ! i) \<Longrightarrow> has_paid (?new ! i)"
    using Cons.IH [of "step e r sv"] by blast+
  have "length ?old \<le> length ?new"
    using s1 r1 by simp
  moreover have "row_id (?new ! i) = row_id (?old ! i)" if "i < length ?old" for i
    using that s1 s2 [of i] r2 [of i] by simp
  moreover have "has_paid (?new ! i)" if "i < length ?old" "has_paid (?old ! i)" for i
    using that s1 s3 [of i] r3 [of i] by simp
  ultimately show ?case
    unfolding er by simp
qed

text \<open>
  Claim C8. \<open>has_paid\<close> is monotone. One request leaves the rows of the store
  as they are, or (only /payment-success) sets \<open>has_paid\<close> to true in the rows of
  one user id and changes nothing else, or (only /register) appends one row whose
  \<open>has_paid\<close> is false. Hence over any sequence of requests, in any
  environments, no row disappears or changes its id, and a row whose
  \<open>has_paid\<close> is true keeps it true.
\<close>

theorem has_paid_monotone:
  "(rows (store (step e r sv)) = rows (store sv)
    \<or> (route r = PaymentSuccess \<and>
        (\<exists>uid. rows (store (step e r sv)) =
           map (\<lambda>u. if row_id u = uid then u\<lparr>has_paid := True\<rparr> else u) (rows (store sv))))
    \<or> (route r = Register \<and>
        (\<exists>u. rows (store (step e r sv)) = rows (store sv) @ [u] \<and> \<not> has_paid u)))
   \<and> length (rows (store sv)) \<le> length (rows (store (run ers sv)))
   \<and> (\<forall>i < length (rows (store sv)).
        row_id (rows (store (run ers sv)) ! i) = row_id (rows (store sv) ! i)
      \<and> (has_paid (rows (store sv) ! i) \<longrightarrow> has_paid (rows (store (run ers sv)) ! i)))"
  using step_rows [of e r sv] run_rows_mono [of sv ers] by blast

theorem has_paid_monotone_witness:
  "route (post Register 0 [(''name'', ''Carol''), (''email'', ''c@x.com''), (''password'', ''pw'')]) = Register
   \<and> map has_paid (rows (store (step stub_env
         (post Register 0 [(''name'', ''Carol''), (''email'', ''c@x.com''), (''password'', ''pw'')])
         (step stub_env (pay 1 ''6b6f317c7031'') logged_in)))) = [True, False, False]
   \<and> (0::nat) < length (rows (store (step stub_env (pay 1 ''6b6f317c7031'') logged_in)))
   \<and> has_paid (rows (store (step stub_env (pay 1 ''6b6f317c7031'') logged_in)) ! 0)
   \<and> has_paid (rows (store (run
         [(stub_env, post Login 1 [(''email'', ''a@x.com''), (''password'', ''pw123'')]),
          (stub_env, post Register 0 [(''name'', ''Carol''), (''email'', ''c@x.com''), (''password'', ''pw'')]),
          (stub_env, pay 2 ''00''),
          (stub_env\<lparr>db_up := False\<rparr>, pay 1 ''6b6f317c7031''),
          (stub_env, post Dashboard 1 [])]
         (step stub_env (pay 1 ''6b6f317c7031'') logged_in))) ! 0)
   \<and> row_id (rows (store (run
         [(stub_env, post Login 1 [(''email'', ''a@x.com''), (''password'', ''pw123'')]),
          (stub_env, post Register 0 [(''name'', ''Carol''), (''email'', ''c@x.com''), (''password'', ''pw'')]),
          (stub_env, pay 2 ''00''),
          (stub_env\<lparr>db_up := False\<rparr>, pay 1 ''6b6f317c7031''),
          (stub_env, post Dashboard 1 [])]
         (step stub_env (pay 1 ''6b6f317c7031'') logged_in))) ! 0) = 1"
proof -
  let ?sv = "step stub_env (pay 1 ''6b6f317c7031'') logged_in"
  let ?reg = "post Register 0 [(''name'', ''Carol''), (''email'', ''c@x.com''), (''password'', ''pw'')]"
  let ?ers = "[(stub_env, post Login 1 [(''email'', ''a@x.com''), (''password'', ''pw123'')]),
          (stub_env, ?reg),
          (stub_env, pay 2 ''00''),
          (stub_env\<lparr>db_up := False\<rparr>, pay 1 ''6b6f317c7031''),
          (stub_env, post Dashboard 1 [])]"
  have sv: "rows (store ?sv) = [alice\<lparr>has_paid := True\<rparr>, bob]"
    by (simp add: fixtures evals)
  have a: "route ?reg = Register"
    by (simp add: post_def)
  have b: "map has_paid (rows (store (step stub_env ?reg ?sv))) = [True, False, False]"
    by (simp add: fixtures evals)
  have c: "(0::nat) < length (rows (store ?sv))" "has_paid (rows (store ?sv) ! 0)"
    "row_id (rows (store ?sv) ! 0) = 1"
    unfolding sv by (simp_all add: alice_def)
  from has_paid_monotone [of stub_env ?reg ?sv ?ers] a b c show ?thesis
    by simp
qed

subsection \<open>The session secret\<close>




end
